theory Spec2Isabelle
  imports Complex_Main "HOL-Library.Sublist"
begin

section \<open>Numbers and errors\<close>

text \<open>
  Python's \<open>float\<close> and \<open>int\<close> values that are numbers are modelled as exact reals:
  rounding and infinities are outside the model. The one place where the tank designer
  leaves the floats is \<open>x ** (1/3)\<close>: for a negative base Python returns a \<open>complex\<close>,
  computed in polar form as \<open>|x| ** y * (cos (pi * y) + i sin (pi * y))\<close>. The float that
  is not a number, NaN, is added in the section on the dimensions over floats, where the
  method is written once more for a capacity that may be NaN and is proved to agree with
  the method on numbers.
\<close>

datatype pynum = PyFloat real | PyComplex complex

datatype py_error = TypeError | KeyError | ZeroDivisionError

definition pow_one_third :: "real \<Rightarrow> pynum" where
  \<comment> \<open>\<open>x ** (1/3)\<close>\<close>
  "pow_one_third x =
     (if x < 0 then PyComplex (of_real ((- x) powr (1 / 3)) * cis (pi / 3))
      else PyFloat (x powr (1 / 3)))"

fun py_scale :: "real \<Rightarrow> pynum \<Rightarrow> pynum" where
  \<comment> \<open>the product of a float and a number\<close>
  "py_scale k (PyFloat x) = PyFloat (k * x)"
| "py_scale k (PyComplex z) = PyComplex (of_real k * z)"

section \<open>professional\_tank\_design\_system.py: ProfessionalTankDesigner\<close>

text \<open>The constant dictionaries set by \<open>__init__\<close>, as association lists read with \<open>map_of\<close>.\<close>

definition safety_factors :: "(string \<times> real) list" where
  "safety_factors =
     [(''shell'', 2.0), (''ends'', 2.0), (''nozzles'', 2.5), (''supports'', 3.0),
      (''lifting_lugs'', 4.0)]"

definition material_properties :: "(string \<times> real) list" where
  "material_properties =
     [(''yield_strength'', 300), (''tensile_strength'', 430), (''elongation'', 23),
      (''density'', 7850), (''modulus'', 200000), (''poisson_ratio'', 0.3)]"

definition design_pressure :: real where
  "design_pressure = 2.5"

definition design_temperature :: real where
  "design_temperature = 60"

definition hydrostatic_test_pressure :: real where
  "hydrostatic_test_pressure = 1.5"

text \<open>
  The first block of \<open>_calculate_optimal_dimensions\<close>: the \<open>if\<close>/\<open>else\<close> that sets
  \<open>tank_diameter\<close>, \<open>tank_length\<close> and \<open>actual_capacity\<close>, in this order.
\<close>

definition tank_size :: "real \<Rightarrow> pynum \<times> pynum \<times> real" where
  "tank_size capacity_liters =
     (if 8000 \<le> capacity_liters \<and> capacity_liters \<le> 12000
      then (PyFloat 1870.0, PyFloat 3680.0, 9000)
      else
        let volume_m3 = capacity_liters / 1000;
            tank_diameter = py_scale 1000 (pow_one_third (volume_m3 * 2 / pi));
            tank_length = py_scale 2 tank_diameter
        in (tank_diameter, tank_length, capacity_liters))"

record optimal_dimensions =
  tank_diameter :: real
  tank_length :: real
  actual_capacity :: real
  shell_thickness :: real
  knuckle_radius :: real
  crown_radius :: real

definition calculated_thickness :: "real \<Rightarrow> real \<Rightarrow> real \<Rightarrow> real" where
  \<comment> \<open>the API 650 formula, for a pressure in psi, a yield strength and a diameter in mm\<close>
  "calculated_thickness pressure yield_strength diameter =
     (let pressure_mpa = pressure * 0.00689476;
          radius_m = (diameter / 2) / 1000;
          allowable_stress = yield_strength * 0.4;
          joint_efficiency = 0.85;
          corrosion_allowance = 1.5
      in ((pressure_mpa * radius_m * 1000) /
          (allowable_stress * joint_efficiency - 0.6 * pressure_mpa)) + corrosion_allowance)"

text \<open>
  The whole method, for a capacity that is a number. The dictionary lookup raises
  \<open>KeyError\<close> on a missing key, the division raises \<open>ZeroDivisionError\<close> on a zero
  denominator, and \<open>max\<close> raises \<open>TypeError\<close> when the thickness is complex, which it is
  exactly when the diameter is. On numbers Python's \<open>max\<close> is the maximum; what it does
  with NaN is in the section on the dimensions over floats.
\<close>

definition calculate_optimal_dimensions ::
    "real \<Rightarrow> (string \<times> real) list \<Rightarrow> real \<Rightarrow> py_error + optimal_dimensions" where
  "calculate_optimal_dimensions capacity_liters properties pressure =
     (case tank_size capacity_liters of (diameter, len, actual) \<Rightarrow>
        (case map_of properties ''yield_strength'' of
           None \<Rightarrow> Inl KeyError
         | Some yield_strength \<Rightarrow>
             if yield_strength * 0.4 * 0.85 - 0.6 * (pressure * 0.00689476) = 0
             then Inl ZeroDivisionError
             else
               (case (diameter, len) of
                  (PyFloat d, PyFloat l) \<Rightarrow>
                    let minimum_thickness = 6.0
                    in Inr \<lparr> tank_diameter = d, tank_length = l, actual_capacity = actual,
                             shell_thickness =
                               max (calculated_thickness pressure yield_strength d)
                                 minimum_thickness,
                             knuckle_radius = max 60.0 (d * 0.06),
                             crown_radius = d \<rparr>
                | _ \<Rightarrow> Inl TypeError)))"

text \<open>The attributes of the standard size class, as the method computes them.\<close>

definition standard_dimensions :: optimal_dimensions where
  "standard_dimensions =
     \<lparr> tank_diameter = 1870, tank_length = 3680, actual_capacity = 9000,
       shell_thickness = 6, knuckle_radius = 112.2, crown_radius = 1870 \<rparr>"

text \<open>
  \<open>_generate_component_specifications\<close>: the \<open>components\<close> dictionary in insertion order.
  Of a \<open>TankComponent\<close> the model keeps the numeric fields (\<open>dimensions\<close>, \<open>thickness\<close>,
  \<open>safety_factor\<close>); the descriptive texts (name, material, standard reference and the two
  requirement lists) are fixed strings that no computation reads.
\<close>

datatype dimval = Num real | Txt string

record tank_component =
  dimensions :: "(string \<times> dimval) list"
  thickness :: real
  safety_factor :: real

definition lookup :: "(string \<times> 'a) list \<Rightarrow> string \<Rightarrow> py_error + 'a" where
  \<comment> \<open>\<open>d[key]\<close>\<close>
  "lookup d key = (case map_of d key of None \<Rightarrow> Inl KeyError | Some v \<Rightarrow> Inr v)"

definition and_then :: "'e + 'a \<Rightarrow> ('a \<Rightarrow> 'e + 'b) \<Rightarrow> 'e + 'b" where
  "and_then r f = (case r of Inl e \<Rightarrow> Inl e | Inr v \<Rightarrow> f v)"

definition get_pipe_thickness :: "nat \<Rightarrow> real" where
  "get_pipe_thickness nominal_size =
     (let thickness_map = [(25, 2.87), (50, 3.68), (80, 5.49)]
      in case map_of thickness_map nominal_size of None \<Rightarrow> 3.68 | Some t \<Rightarrow> t)"

definition nozzle_specs :: "(string \<times> nat) list" where
  \<comment> \<open>the nozzle names with their \<open>size\<close>; \<open>schedule\<close> is \<open>Std\<close> for all four\<close>
  "nozzle_specs =
     [(''fill_nozzle'', 80), (''vent_nozzle'', 50), (''outlet_nozzle'', 50),
      (''drain_nozzle'', 25)]"

definition nozzle_component :: "real \<Rightarrow> nat \<Rightarrow> tank_component" where
  "nozzle_component factor nominal_size =
     \<lparr> dimensions =
         [(''nominal_size'', Num (real nominal_size)), (''schedule'', Txt ''Std''),
          (''length'', Num 150.0), (''flange_rating'', Txt ''Table D'')],
       thickness = get_pipe_thickness nominal_size,
       safety_factor = factor \<rparr>"

definition generate_component_specifications ::
    "(string \<times> real) list \<Rightarrow> optimal_dimensions \<Rightarrow> py_error + (string \<times> tank_component) list" where
  "generate_component_specifications factors ds =
     and_then (lookup factors ''shell'') (\<lambda>f_shell.
     and_then (lookup factors ''ends'') (\<lambda>f_ends.
     and_then (lookup factors ''nozzles'') (\<lambda>f_nozzles.
     and_then (lookup factors ''supports'') (\<lambda>f_supports.
     and_then (lookup factors ''lifting_lugs'') (\<lambda>f_lugs.
     let manhole_diameter = 600.0;
         saddle_position = tank_length ds * 0.29
     in Inr
       ([(''shell'',
          \<lparr> dimensions =
              [(''diameter'', Num (tank_diameter ds)), (''length'', Num (tank_length ds)),
               (''thickness'', Num (shell_thickness ds))],
            thickness = shell_thickness ds, safety_factor = f_shell \<rparr>),
         (''dished_ends'',
          \<lparr> dimensions =
              [(''diameter'', Num (tank_diameter ds)),
               (''knuckle_radius'', Num (knuckle_radius ds)),
               (''crown_radius'', Num (crown_radius ds)),
               (''thickness'', Num (shell_thickness ds))],
            thickness = shell_thickness ds, safety_factor = f_ends \<rparr>),
         (''manhole'',
          \<lparr> dimensions =
              [(''diameter'', Num manhole_diameter), (''neck_height'', Num 100.0),
               (''flange_od'', Num 750.0), (''flange_thickness'', Num 20.0),
               (''reinforcing_plate_od'', Num 800.0),
               (''reinforcing_plate_thickness'', Num 8.0)],
            thickness = 20.0, safety_factor = f_nozzles \<rparr>),
         (''support_saddles'',
          \<lparr> dimensions =
              [(''width'', Num 250.0), (''height'', Num 600.0), (''thickness'', Num 10.0),
               (''contact_angle'', Num 120.0), (''spacing'', Num 2140.0),
               (''position_from_center'', Num saddle_position)],
            thickness = 10.0, safety_factor = f_supports \<rparr>),
         (''lifting_lugs'',
          \<lparr> dimensions =
              [(''height'', Num 90.0), (''width'', Num 150.0), (''thickness'', Num 12.0),
               (''hole_diameter'', Num 50.0), (''spacing'', Num (tank_length ds * 0.67))],
            thickness = 12.0, safety_factor = f_lugs \<rparr>)]
        @ map (\<lambda>(nozzle_name, nominal_size).
                (nozzle_name, nozzle_component f_nozzles nominal_size))
            nozzle_specs))))))"

record designer =
  capacity_liters :: real
  capacity_m3 :: real
  dims :: optimal_dimensions
  components :: "(string \<times> tank_component) list"

definition init :: "real \<Rightarrow> py_error + designer" where
  \<comment> \<open>\<open>ProfessionalTankDesigner.__init__\<close>: the attributes the report and the components read\<close>
  "init capacity =
     and_then (calculate_optimal_dimensions capacity material_properties design_pressure)
       (\<lambda>ds.
     and_then (generate_component_specifications safety_factors ds) (\<lambda>comps.
       Inr \<lparr> capacity_liters = capacity, capacity_m3 = capacity / 1000, dims = ds,
             components = comps \<rparr>))"

text \<open>The verdict of the "Capacity Verification" line of \<open>generate_comprehensive_report\<close>.\<close>

datatype verdict = PASS | FAIL

definition calculated_volume :: "designer \<Rightarrow> real" where
  "calculated_volume self =
     pi * (tank_diameter (dims self) / 2000)\<^sup>2 * (tank_length (dims self) / 1000)"

definition capacity_match :: "designer \<Rightarrow> verdict" where
  "capacity_match self =
     (if \<bar>calculated_volume self - capacity_m3 self\<bar> < 0.5 then PASS else FAIL)"

section \<open>The dimensions over floats that may be NaN\<close>















section \<open>Strings and library calls\<close>

text \<open>
  A Python \<open>str\<close> is a list of characters. The methods used by the handlers:
  \<open>s.split(sep)[-1]\<close> for a one-character separator, \<open>s.replace(old, new)\<close> (the
  non-overlapping occurrences of \<open>old\<close>, from the left), \<open>s.startswith(p)\<close> and
  \<open>s.endswith(p)\<close>.
\<close>

fun str_split :: "char \<Rightarrow> string \<Rightarrow> string list" where
  "str_split sep [] = [[]]"
| "str_split sep (c # cs) =
     (if c = sep then [] # str_split sep cs
      else (case str_split sep cs of [] \<Rightarrow> [[c]] | w # ws \<Rightarrow> (c # w) # ws))"

function str_replace :: "string \<Rightarrow> string \<Rightarrow> string \<Rightarrow> string" where
  "str_replace old new s =
     (if old = [] then new @ concat (map (\<lambda>c. c # new) s)
      else if s = [] then []
      else if prefix old s then new @ str_replace old new (drop (length old) s)
      else hd s # str_replace old new (tl s))"
  by pat_completeness auto
termination
  by (relation "measure (\<lambda>(old, new, s). length s)") auto

declare str_replace.simps [simp del]

definition startswith :: "string \<Rightarrow> string \<Rightarrow> bool" where
  "startswith s p = prefix p s"

definition endswith :: "string \<Rightarrow> string \<Rightarrow> bool" where
  "endswith s p = suffix p s"

text \<open>
  A call into a library or the operating system either returns or raises. An exception is
  an instance of \<open>Exception\<close>, with the text that \<open>str(e)\<close> gives, or one of the two
  exceptions outside \<open>Exception\<close> that a running program meets, \<open>KeyboardInterrupt\<close> and
  \<open>SystemExit\<close>. An \<open>except Exception\<close> clause catches the former only; a bare \<open>except\<close>
  clause catches all three.
\<close>

datatype py_exception = Exception string | KeyboardInterrupt | SystemExit

fun is_Exception :: "py_exception \<Rightarrow> bool" where
  \<comment> \<open>\<open>isinstance(e, Exception)\<close>\<close>
  "is_Exception (Exception message) = True"
| "is_Exception KeyboardInterrupt = False"
| "is_Exception SystemExit = False"

fun str :: "py_exception \<Rightarrow> string" where
  \<comment> \<open>\<open>str(e)\<close>, for exceptions raised without arguments outside \<open>Exception\<close>\<close>
  "str (Exception message) = message"
| "str KeyboardInterrupt = []"
| "str SystemExit = []"

section \<open>main.py and documentation\_server.py: the request handlers\<close>

text \<open>
  The two handler classes share the code of \<open>do_GET\<close> and differ in the headers, the
  error messages and the markdown extensions of \<open>serve_main_dashboard\<close> and
  \<open>serve_document\<close>.
\<close>

datatype handler = ProfessionalDocumentationHandler | DocumentationHandler

text \<open>
  The pages written to the client: the fixed dashboard text of a handler and the f-string
  template of \<open>serve_document\<close> with its two holes, \<open>title\<close> and \<open>html_content\<close>.
\<close>

datatype page =
    Dashboard handler
  | StyledPage handler (page_title: string) (page_content: string)

text \<open>
  What a handler does with a request: the calls it makes on the framework, in order. When an
  exception leaves the handler, the last entry is \<open>Propagates\<close> with that exception.
\<close>

datatype http_call =
    SendResponse nat
  | SendHeader string string
  | EndHeaders
  | WfileWrite page
  | SendError nat "string option"
  | SuperDoGET
  | Propagates py_exception

text \<open>
  The file system and the markdown library, and for the handlers the path that \<open>urlparse\<close>
  returns and the outcome of a response call made inside the \<open>try\<close> block of
  \<open>serve_document\<close> (it raises when the client has gone). The response calls outside a
  \<open>try\<close>, those of \<open>serve_main_dashboard\<close> and \<open>send_error\<close>, are taken to return.
\<close>

record file_env =
  path_exists :: "string \<Rightarrow> bool"
  read_text :: "string \<Rightarrow> py_exception + string"
  markdown_convert :: "string list \<Rightarrow> string \<Rightarrow> py_exception + string"

record web_env = file_env +
  urlparse_path :: "string \<Rightarrow> string"
  response_raises :: "http_call \<Rightarrow> py_exception option"

definition cors_headers :: "handler \<Rightarrow> http_call list" where
  "cors_headers h =
     (case h of
        ProfessionalDocumentationHandler \<Rightarrow> [SendHeader ''Access-Control-Allow-Origin'' ''*'']
      | DocumentationHandler \<Rightarrow> [])"

definition extensions :: "handler \<Rightarrow> string list" where
  "extensions h =
     (case h of
        ProfessionalDocumentationHandler \<Rightarrow> [''extra'', ''tables'', ''toc'']
      | DocumentationHandler \<Rightarrow> [''extra'', ''tables''])"

definition not_found_message :: "handler \<Rightarrow> string \<Rightarrow> string option" where
  "not_found_message h filename =
     (case h of
        ProfessionalDocumentationHandler \<Rightarrow> Some (''Document not found: '' @ filename)
      | DocumentationHandler \<Rightarrow> None)"

definition error_message :: "handler \<Rightarrow> py_exception \<Rightarrow> string option" where
  "error_message h e =
     (case h of
        ProfessionalDocumentationHandler \<Rightarrow> Some (''Error reading document: '' @ str e)
      | DocumentationHandler \<Rightarrow> Some (''Error: '' @ str e))"

definition serve_main_dashboard :: "handler \<Rightarrow> http_call list" where
  "serve_main_dashboard h =
     [SendResponse 200, SendHeader ''Content-type'' ''text/html; charset=utf-8'']
     @ cors_headers h @ [EndHeaders, WfileWrite (Dashboard h)]"

text \<open>
  \<open>serve_document\<close>: the existence check, then the \<open>try\<close> block. The block reads the
  file, converts or wraps the content, and makes the calls of the 200 response; it ends at
  the first call that raises. Its \<open>except Exception\<close> clause answers with
  \<open>send_error(500, ...)\<close>; any other exception leaves the handler.
\<close>

definition html_of :: "handler \<Rightarrow> web_env \<Rightarrow> string \<Rightarrow> string \<Rightarrow> py_exception + string" where
  "html_of h env filename content =
     (if endswith filename ''.md'' then markdown_convert env (extensions h) content
      else Inr (''<pre>'' @ content @ ''</pre>''))"

fun respond ::
    "(http_call \<Rightarrow> py_exception option) \<Rightarrow> http_call list \<Rightarrow> http_call list \<times> py_exception option" where
  \<comment> \<open>the calls made, up to and with the first that raises, and what it raised\<close>
  "respond raises [] = ([], None)"
| "respond raises (c # cs) =
     (case raises c of
        Some e \<Rightarrow> ([c], Some e)
      | None \<Rightarrow> (case respond raises cs of (made, raised) \<Rightarrow> (c # made, raised)))"

definition try_block ::
    "handler \<Rightarrow> web_env \<Rightarrow> string \<Rightarrow> http_call list \<times> py_exception option" where
  "try_block h env filename =
     (case read_text env filename of
        Inl e \<Rightarrow> ([], Some e)
      | Inr content \<Rightarrow>
          (case html_of h env filename content of
             Inl e \<Rightarrow> ([], Some e)
           | Inr html_content \<Rightarrow>
               let title = str_replace ''.md'' '''' (str_replace ''_'' '' '' filename)
               in respond (response_raises env)
                    ([SendResponse 200, SendHeader ''Content-type'' ''text/html; charset=utf-8'']
                     @ cors_headers h
                     @ [EndHeaders, WfileWrite (StyledPage h title html_content)])))"

definition serve_document :: "handler \<Rightarrow> web_env \<Rightarrow> string \<Rightarrow> http_call list" where
  "serve_document h env filename =
     (if \<not> path_exists env filename then [SendError 404 (not_found_message h filename)]
      else
        (case try_block h env filename of
           (made, None) \<Rightarrow> made
         | (made, Some e) \<Rightarrow>
             if is_Exception e then made @ [SendError 500 (error_message h e)]
             else made @ [Propagates e]))"

definition do_GET :: "handler \<Rightarrow> web_env \<Rightarrow> string \<Rightarrow> http_call list" where
  "do_GET h env self_path =
     (let path = urlparse_path env self_path
      in if path = ''/'' \<or> path = ''/index.html'' then serve_main_dashboard h
         else if startswith path ''/document/'' then
           (let doc_name = last (str_split CHR ''/'' path)
            in serve_document h env doc_name)
         else [SuperDoGET])"

text \<open>The status code of a response: that of its first status-setting call.\<close>

fun response_status :: "http_call list \<Rightarrow> nat option" where
  "response_status [] = None"
| "response_status (SendResponse code # cs) = Some code"
| "response_status (SendError code msg # cs) = Some code"
| "response_status (c # cs) = response_status cs"


text \<open>The codes of the \<open>send_error\<close> calls among the calls of a handler.\<close>

fun sent_errors :: "http_call list \<Rightarrow> nat list" where
  "sent_errors [] = []"
| "sent_errors (SendError code msg # cs) = code # sent_errors cs"
| "sent_errors (c # cs) = sent_errors cs"


text \<open>
  The last \<open>/\<close>-separated segment of a path, in the words of the specification: what follows
  the last \<open>/\<close>.
\<close>

definition last_segment :: "string \<Rightarrow> string" where
  "last_segment path = rev (takeWhile (\<lambda>c. c \<noteq> CHR ''/'') (rev path))"

text \<open>
  Environments for examples: four files, one of them unreadable, and a toy converter; in the
  second environment the client has gone when the body is written; in the third the read is
  interrupted from the keyboard.
\<close>

definition example_env :: web_env where
  "example_env =
     \<lparr> path_exists = (\<lambda>f. f \<in> {''Tank_Report.md'', ''notes.txt'', ''bad.md'', ''locked.md''}),
       read_text =
         (\<lambda>f. if f = ''Tank_Report.md'' then Inr ''# Tank''
              else if f = ''notes.txt'' then Inr ''plain''
              else if f = ''bad.md'' then Inr ''broken''
              else Inl (Exception ''Permission denied'')),
       markdown_convert =
         (\<lambda>exts content. if content = ''# Tank'' then Inr ''<h1>Tank</h1>''
                          else Inl (Exception ''conversion failed'')),
       urlparse_path = takeWhile (\<lambda>c. c \<noteq> CHR ''?''),
       response_raises = (\<lambda>c. None) \<rparr>"

definition broken_pipe_env :: web_env where
  "broken_pipe_env =
     example_env
       \<lparr> response_raises :=
           (\<lambda>c. case c of WfileWrite p \<Rightarrow> Some (Exception ''Broken pipe'') | _ \<Rightarrow> None) \<rparr>"


section \<open>final\_step\_generator.py: export\_step\_file\<close>











section \<open>simple\_pdf\_generator.py\<close>

text \<open>
  The environment of the PDF generator adds, to the file system and the markdown library,
  the import of the two libraries, the rendering (the \<open>CSS\<close> and \<open>HTML\<close> objects and
  \<open>write_pdf\<close>) of a document with a title and HTML content to an output path, the
  creation of the output directory and the \<open>print\<close> calls, named by their place in the
  source. The PDF files are written under other names than the markdown files read, so
  the existence of the markdown files does not change while \<open>main\<close> runs.
\<close>

datatype pdf_print =
    Banner
  | Converting string
  | Success string
  | ErrorConverting string py_exception
  | FileNotFound string
  | Summary nat nat
  | CreatedIn string

record pdf_env = file_env +
  import_libraries :: "py_exception option"
  write_pdf :: "string \<Rightarrow> string \<Rightarrow> string \<Rightarrow> py_exception option"
  mkdir :: "string \<Rightarrow> py_exception option"
  print_raises :: "pdf_print \<Rightarrow> py_exception option"

definition title_or_default :: "string option \<Rightarrow> string" where
  \<comment> \<open>\<open>title or "Professional Documentation"\<close>: the default also replaces an empty title\<close>
  "title_or_default title =
     (case title of
        None \<Rightarrow> ''Professional Documentation''
      | Some t \<Rightarrow> if t = [] then ''Professional Documentation'' else t)"

definition conversion :: "pdf_env \<Rightarrow> string \<Rightarrow> string \<Rightarrow> string option \<Rightarrow> py_exception option" where
  \<comment> \<open>the body of the \<open>try\<close> block of \<open>markdown_to_pdf\<close>: \<open>None\<close> when it reaches \<open>return True\<close>\<close>
  "conversion env markdown_file output_pdf title =
     (case import_libraries env of
        Some e \<Rightarrow> Some e
      | None \<Rightarrow>
          (case print_raises env (Converting markdown_file) of
             Some e \<Rightarrow> Some e
           | None \<Rightarrow>
               (case read_text env markdown_file of
                  Inl e \<Rightarrow> Some e
                | Inr markdown_content \<Rightarrow>
                    (case markdown_convert env [''extra'', ''codehilite'', ''toc'']
                            markdown_content of
                       Inl e \<Rightarrow> Some e
                     | Inr html_content \<Rightarrow>
                         (case write_pdf env output_pdf (title_or_default title)
                                 html_content of
                            Some e \<Rightarrow> Some e
                          | None \<Rightarrow> print_raises env (Success output_pdf))))))"

definition markdown_to_pdf ::
    "pdf_env \<Rightarrow> string \<Rightarrow> string \<Rightarrow> string option \<Rightarrow> py_exception + bool" where
  \<comment> \<open>\<open>except Exception as e: print(...); return False\<close>\<close>
  "markdown_to_pdf env markdown_file output_pdf title =
     (case conversion env markdown_file output_pdf title of
        None \<Rightarrow> Inr True
      | Some e \<Rightarrow>
          if is_Exception e then
            (case print_raises env (ErrorConverting markdown_file e) of
               None \<Rightarrow> Inr False
             | Some e' \<Rightarrow> Inl e')
          else Inl e)"

definition documents :: "(string \<times> string \<times> string) list" where
  "documents =
     [(''Comprehensive_Tank_Design_Deliverable.md'',
       ''Complete_Professional_Tank_Design_Package.pdf'',
       ''Complete Professional Tank Design Package''),
      (''Tank_Technical_Specifications.md'', ''Tank_Technical_Specifications.pdf'',
       ''Tank Technical Specifications''),
      (''Tank_Design_Analysis_Report.md'', ''Tank_Design_Analysis_Report.pdf'',
       ''Tank Design Analysis Report''),
      (''Tank_Safety_Compliance_Checklist.md'', ''Tank_Safety_Compliance_Checklist.pdf'',
       ''Tank Safety Compliance Checklist''),
      (''README.md'', ''SolidWorks_API_Collection_Overview.pdf'',
       ''SolidWorks API Collection Overview''),
      (''DEPLOYMENT_SUMMARY.md'', ''SuperClaude_Deployment_Summary.pdf'',
       ''SuperClaude Multi-Persona Optimization Summary'')]"

definition pdf_dir :: string where
  "pdf_dir = ''Professional_PDF_Documentation''"

definition output_path :: "string \<Rightarrow> string" where
  \<comment> \<open>\<open>str(pdf_dir / pdf_filename)\<close>\<close>
  "output_path pdf_filename = pdf_dir @ ''/'' @ pdf_filename"

text \<open>
  The loop of \<open>main\<close> with its counter. An exception that leaves \<open>markdown_to_pdf\<close> or the
  \<open>print\<close> for a missing file leaves the loop and \<open>main\<close>.
\<close>

fun convert_all ::
    "pdf_env \<Rightarrow> (string \<times> string \<times> string) list \<Rightarrow> nat \<Rightarrow> py_exception + nat" where
  "convert_all env [] successful = Inr successful"
| "convert_all env ((markdown_file, pdf_filename, title) # rest) successful =
     (if path_exists env markdown_file then
        (case markdown_to_pdf env markdown_file (output_path pdf_filename) (Some title) of
           Inl e \<Rightarrow> Inl e
         | Inr converted \<Rightarrow>
             if converted then convert_all env rest (successful + 1)
             else convert_all env rest successful)
      else
        (case print_raises env (FileNotFound markdown_file) of
           Some e \<Rightarrow> Inl e
         | None \<Rightarrow> convert_all env rest successful))"

definition pdf_main :: "pdf_env \<Rightarrow> py_exception + bool" where
  \<comment> \<open>\<open>main\<close> of simple\_pdf\_generator.py; \<open>Banner\<close> stands for its three opening prints\<close>
  "pdf_main env =
     (case print_raises env Banner of
        Some e \<Rightarrow> Inl e
      | None \<Rightarrow>
          (case mkdir env pdf_dir of
             Some e \<Rightarrow> Inl e
           | None \<Rightarrow>
               (let total = length documents
                in case convert_all env documents 0 of
                     Inl e \<Rightarrow> Inl e
                   | Inr successful \<Rightarrow>
                       (case print_raises env (Summary successful total) of
                          Some e \<Rightarrow> Inl e
                        | None \<Rightarrow>
                            (case print_raises env (CreatedIn pdf_dir) of
                               Some e \<Rightarrow> Inl e
                             | None \<Rightarrow> Inr (successful = total))))))"

text \<open>
  In the words of the claim C6: a conversion succeeds when the import, the read, the markdown
  conversion, the rendering and the two prints of the \<open>try\<close> block all return; a listed
  document is converted when its file exists and its conversion succeeds.
\<close>

definition conversion_succeeds :: "pdf_env \<Rightarrow> string \<Rightarrow> string \<Rightarrow> string option \<Rightarrow> bool" where
  "conversion_succeeds env markdown_file output_pdf title =
     (import_libraries env = None \<and>
      print_raises env (Converting markdown_file) = None \<and>
      (case read_text env markdown_file of
         Inl e \<Rightarrow> False
       | Inr markdown_content \<Rightarrow>
           (case markdown_convert env [''extra'', ''codehilite'', ''toc''] markdown_content of
              Inl e \<Rightarrow> False
            | Inr html_content \<Rightarrow>
                write_pdf env output_pdf (title_or_default title) html_content = None)) \<and>
      print_raises env (Success output_pdf) = None)"

definition converted :: "pdf_env \<Rightarrow> string \<times> string \<times> string \<Rightarrow> bool" where
  "converted env doc =
     (case doc of (markdown_file, pdf_filename, title) \<Rightarrow>
        path_exists env markdown_file \<and>
        conversion_succeeds env markdown_file (output_path pdf_filename) (Some title))"

text \<open>
  An environment is quiet when no call of the generator raises outside \<open>Exception\<close> and the
  calls outside every \<open>try\<close>, the prints of \<open>main\<close>, the print of the error message and
  \<open>mkdir\<close>, return.
\<close>

definition quiet :: "pdf_env \<Rightarrow> bool" where
  "quiet env =
     ((\<forall>e. import_libraries env = Some e \<longrightarrow> is_Exception e) \<and>
      (\<forall>f e. read_text env f = Inl e \<longrightarrow> is_Exception e) \<and>
      (\<forall>exts content e. markdown_convert env exts content = Inl e \<longrightarrow> is_Exception e) \<and>
      (\<forall>out title html e. write_pdf env out title html = Some e \<longrightarrow> is_Exception e) \<and>
      (\<forall>p e. print_raises env p = Some e \<longrightarrow>
         is_Exception e \<and> (\<exists>f. p = Converting f \<or> p = Success f)) \<and>
      mkdir env pdf_dir = None)"

text \<open>
  Environments for examples: in the first every file exists and is rendered, in the second
  the README is missing, in the third its rendering fails, in the fourth its rendering is
  interrupted from the keyboard.
\<close>

definition example_pdf_env :: pdf_env where
  "example_pdf_env =
     \<lparr> path_exists = (\<lambda>f. True),
       read_text = (\<lambda>f. Inr ''# Title''),
       markdown_convert = (\<lambda>exts content. Inr ''<h1>Title</h1>''),
       import_libraries = None,
       write_pdf = (\<lambda>out title html. None),
       mkdir = (\<lambda>d. None),
       print_raises = (\<lambda>p. None) \<rparr>"

definition example_pdf_env_missing :: pdf_env where
  "example_pdf_env_missing = example_pdf_env \<lparr> path_exists := (\<lambda>f. f \<noteq> ''README.md'') \<rparr>"

definition example_pdf_env_failing :: pdf_env where
  "example_pdf_env_failing =
     example_pdf_env
       \<lparr> write_pdf :=
           (\<lambda>out title html.
              if title = ''SolidWorks API Collection Overview''
              then Some (Exception ''cannot render'') else None) \<rparr>"

definition example_pdf_env_interrupted :: pdf_env where
  "example_pdf_env_interrupted =
     example_pdf_env \<lparr> write_pdf := (\<lambda>out title html. Some KeyboardInterrupt) \<rparr>"

section \<open>The server entry points\<close>

text \<open>
  \<open>start_server\<close> of documentation\_server.py and \<open>main\<close> of main.py, as the calls they
  make in order and the way they end. The environment gives the port read from \<open>PORT\<close>,
  whether binding the socket raises, and whether \<open>serve_forever\<close> is ended by a
  \<open>KeyboardInterrupt\<close>, which both functions catch. A started thread is recorded with its
  \<open>daemon\<close> flag and the calls of its target function. The \<open>print\<close> calls are not recorded.
\<close>

datatype server_call =
    Chdir
  | TCPServerBind string nat handler
  | ThreadStart bool "server_call list"
  | Sleep nat
  | WebbrowserOpen string
  | ServeForever
  | Shutdown
  | ServerClose

datatype ending = Returns | Raises py_exception | RunsForever

record server_env =
  environ_port :: "py_exception + nat"
  bind :: "string \<Rightarrow> nat \<Rightarrow> py_exception option"
  interrupted :: bool

definition serve ::
    "server_env \<Rightarrow> server_call list \<Rightarrow> server_call list \<times> ending" where
  \<comment> \<open>\<open>try: httpd.serve_forever() except KeyboardInterrupt: httpd.shutdown()\<close>, then the end of \<open>with\<close>\<close>
  "serve env before =
     (if interrupted env then (before @ [ServeForever, Shutdown, ServerClose], Returns)
      else (before @ [ServeForever], RunsForever))"

definition start_server :: "server_env \<Rightarrow> server_call list \<times> ending" where
  "start_server env =
     (let PORT = 8080
      in case bind env '''' PORT of
           Some e \<Rightarrow> ([Chdir], Raises e)
         | None \<Rightarrow>
             let open_browser = [Sleep 2, WebbrowserOpen ''http://localhost:8080'']
             in serve env
                  [Chdir, TCPServerBind '''' PORT DocumentationHandler,
                   ThreadStart True open_browser])"

definition server_main :: "server_env \<Rightarrow> server_call list \<times> ending" where
  \<comment> \<open>\<open>main\<close> of main.py\<close>
  "server_main env =
     (case environ_port env of
        Inl e \<Rightarrow> ([], Raises e)
      | Inr PORT \<Rightarrow>
          (case bind env ''0.0.0.0'' PORT of
             Some e \<Rightarrow> ([Chdir], Raises e)
           | None \<Rightarrow>
               serve env [Chdir, TCPServerBind ''0.0.0.0'' PORT ProfessionalDocumentationHandler]))"

fun started_threads :: "server_call list \<Rightarrow> (bool \<times> server_call list) list" where
  "started_threads [] = []"
| "started_threads (ThreadStart daemon target # calls) = (daemon, target) # started_threads calls"
| "started_threads (c # calls) = started_threads calls"

definition example_server_env :: server_env where
  "example_server_env = \<lparr> environ_port = Inr 8080, bind = (\<lambda>host port. None), interrupted = True \<rparr>"

section \<open>Properties of the tank designer\<close>

lemma pi_ge_three: "3 \<le> pi"
proof -
  have "sin (pi / 6) \<le> pi / 6"
    by (rule sin_x_le_x) simp
  then show ?thesis
    by (simp add: sin_30)
qed

lemma tank_size_standard:
  "8000 \<le> c \<Longrightarrow> c \<le> 12000 \<Longrightarrow> tank_size c = (PyFloat 1870, PyFloat 3680, 9000)"
  by (simp add: tank_size_def)

lemma pow_one_third_nonneg: "0 \<le> x \<Longrightarrow> pow_one_third x = PyFloat (x powr (1 / 3))"
  by (simp add: pow_one_third_def)

lemma tank_size_computed:
  assumes "\<not> (8000 \<le> c \<and> c \<le> 12000)" and "0 \<le> c"
  shows "tank_size c =
           (PyFloat (1000 * (c / 1000 * 2 / pi) powr (1 / 3)),
            PyFloat (2 * (1000 * (c / 1000 * 2 / pi) powr (1 / 3))), c)"
proof -
  have "0 \<le> c / 1000 * 2 / pi"
    using assms(2) pi_ge_zero by simp
  moreover have "tank_size c =
      (let volume_m3 = c / 1000;
           tank_diameter = py_scale 1000 (pow_one_third (volume_m3 * 2 / pi));
           tank_length = py_scale 2 tank_diameter
       in (tank_diameter, tank_length, c))"
    unfolding tank_size_def using assms(1) by (rule if_not_P)
  ultimately show ?thesis
    by (simp add: Let_def pow_one_third_nonneg)
qed


lemma yield_strength: "map_of material_properties ''yield_strength'' = Some 300"
  by (simp add: material_properties_def)

lemma denominator_nonzero: "(300::real) * 0.4 * 0.85 - 0.6 * (design_pressure * 0.00689476) \<noteq> 0"
  by (simp add: design_pressure_def)

lemma calculate_float:
  assumes "tank_size c = (PyFloat d, PyFloat l, a)"
  shows "calculate_optimal_dimensions c material_properties design_pressure =
           Inr \<lparr> tank_diameter = d, tank_length = l, actual_capacity = a,
                 shell_thickness = max (calculated_thickness design_pressure 300 d) 6,
                 knuckle_radius = max 60 (d * 0.06), crown_radius = d \<rparr>"
  using assms denominator_nonzero
  by (simp add: calculate_optimal_dimensions_def yield_strength)


lemma thickness_standard: "calculated_thickness design_pressure 300 1870 \<le> 6"
  by (simp add: calculated_thickness_def design_pressure_def)

lemma calculate_standard:
  assumes "8000 \<le> c" and "c \<le> 12000"
  shows "calculate_optimal_dimensions c material_properties design_pressure = Inr standard_dimensions"
  using calculate_float [OF tank_size_standard [OF assms]] thickness_standard
  by (simp add: standard_dimensions_def max_def)


lemma components_total:
  "\<exists>comps. generate_component_specifications safety_factors ds = Inr comps"
  by (simp add: generate_component_specifications_def safety_factors_def lookup_def
      and_then_def)

lemma init_Inr:
  assumes "calculate_optimal_dimensions c material_properties design_pressure = Inr ds"
  shows "\<exists>comps. init c =
           Inr \<lparr> capacity_liters = c, capacity_m3 = c / 1000, dims = ds, components = comps \<rparr>"
proof -
  obtain comps where "generate_component_specifications safety_factors ds = Inr comps"
    using components_total by blast
  then show ?thesis
    using assms by (simp add: init_def and_then_def)
qed

lemma init_dims:
  assumes "init c = Inr d"
  shows "calculate_optimal_dimensions c material_properties design_pressure = Inr (dims d)"
    and "capacity_m3 d = c / 1000" and "capacity_liters d = c"
    and "generate_component_specifications safety_factors (dims d) = Inr (components d)"
  using assms by (auto simp: init_def and_then_def split: sum.splits)



lemma calculate_computed:
  assumes "\<not> (8000 \<le> c \<and> c \<le> 12000)" and "0 \<le> c"
  shows "calculate_optimal_dimensions c material_properties design_pressure =
           Inr \<lparr> tank_diameter = 1000 * (c / 1000 * 2 / pi) powr (1 / 3),
                 tank_length = 2 * (1000 * (c / 1000 * 2 / pi) powr (1 / 3)),
                 actual_capacity = c,
                 shell_thickness =
                   max (calculated_thickness design_pressure 300
                          (1000 * (c / 1000 * 2 / pi) powr (1 / 3))) 6,
                 knuckle_radius = max 60 (1000 * (c / 1000 * 2 / pi) powr (1 / 3) * 0.06),
                 crown_radius = 1000 * (c / 1000 * 2 / pi) powr (1 / 3) \<rparr>"
  by (rule calculate_float [OF tank_size_computed [OF assms]])


subsection \<open>C1: the dimensions chosen for a capacity\<close>

text \<open>
  C1. For every capacity with \<open>8000 \<le> capacity \<le> 12000\<close> the method sets the diameter to
  1870 mm, the length to 3680 mm and the actual capacity to 9000 L. For every capacity outside
  the range the first block sets the diameter to \<open>((capacity_m3 * 2 / pi) ** (1/3)) * 1000\<close>,
  the length to twice the diameter and the actual capacity to the requested one; for a
  non-negative capacity these are floats and the method returns them.
\<close>

theorem optimal_dimensions_by_capacity:
  "(8000 \<le> c \<and> c \<le> 12000 \<longrightarrow>
      tank_size c = (PyFloat 1870.0, PyFloat 3680.0, 9000) \<and>
      (\<exists>ds. calculate_optimal_dimensions c material_properties design_pressure = Inr ds \<and>
         tank_diameter ds = 1870.0 \<and> tank_length ds = 3680.0 \<and> actual_capacity ds = 9000)) \<and>
   (\<not> (8000 \<le> c \<and> c \<le> 12000) \<longrightarrow>
      tank_size c =
        (py_scale 1000 (pow_one_third (c / 1000 * 2 / pi)),
         py_scale 2 (py_scale 1000 (pow_one_third (c / 1000 * 2 / pi))), c) \<and>
      (0 \<le> c \<longrightarrow>
        (\<exists>ds. calculate_optimal_dimensions c material_properties design_pressure = Inr ds \<and>
           tank_diameter ds = ((c / 1000 * 2 / pi) powr (1 / 3)) * 1000 \<and>
           tank_length ds = 2 * tank_diameter ds \<and> actual_capacity ds = c)))"
proof (intro conjI impI)
  assume r: "8000 \<le> c \<and> c \<le> 12000"
  then show "tank_size c = (PyFloat 1870.0, PyFloat 3680.0, 9000)"
    by (simp add: tank_size_standard)
  from r have "calculate_optimal_dimensions c material_properties design_pressure =
      Inr standard_dimensions"
    by (simp add: calculate_standard)
  then show "\<exists>ds. calculate_optimal_dimensions c material_properties design_pressure = Inr ds \<and>
         tank_diameter ds = 1870.0 \<and> tank_length ds = 3680.0 \<and> actual_capacity ds = 9000"
    by (simp add: standard_dimensions_def)
next
  assume n: "\<not> (8000 \<le> c \<and> c \<le> 12000)"
  have "tank_size c =
      (let volume_m3 = c / 1000;
           tank_diameter = py_scale 1000 (pow_one_third (volume_m3 * 2 / pi));
           tank_length = py_scale 2 tank_diameter
       in (tank_diameter, tank_length, c))"
    unfolding tank_size_def using n by (rule if_not_P)
  then show "tank_size c =
        (py_scale 1000 (pow_one_third (c / 1000 * 2 / pi)),
         py_scale 2 (py_scale 1000 (pow_one_third (c / 1000 * 2 / pi))), c)"
    by (simp add: Let_def)
  assume "0 \<le> c"
  with n show "\<exists>ds. calculate_optimal_dimensions c material_properties design_pressure = Inr ds \<and>
           tank_diameter ds = ((c / 1000 * 2 / pi) powr (1 / 3)) * 1000 \<and>
           tank_length ds = 2 * tank_diameter ds \<and> actual_capacity ds = c"
    by (simp add: calculate_computed)
qed


text \<open>The theorem at 10000 L (standard size) and at 20000 L (computed size).\<close>

theorem optimal_dimensions_by_capacity_witness:
  "(8000 \<le> (10000::real) \<and> (10000::real) \<le> 12000) \<and>
   tank_size 10000 = (PyFloat 1870.0, PyFloat 3680.0, 9000) \<and>
   \<not> (8000 \<le> (20000::real) \<and> (20000::real) \<le> 12000) \<and> (0::real) \<le> 20000 \<and>
   (\<exists>ds. calculate_optimal_dimensions 20000 material_properties design_pressure = Inr ds \<and>
      tank_diameter ds = ((20000 / 1000 * 2 / pi) powr (1 / 3)) * 1000 \<and>
      tank_length ds = 2 * tank_diameter ds \<and> actual_capacity ds = 20000)"
  using optimal_dimensions_by_capacity [of 10000] optimal_dimensions_by_capacity [of 20000] by simp

lemma init_total: "0 \<le> c \<Longrightarrow> \<exists>d. init c = Inr d"
proof -
  assume c: "0 \<le> c"
  have "\<exists>ds. calculate_optimal_dimensions c material_properties design_pressure = Inr ds"
  proof (cases "8000 \<le> c \<and> c \<le> 12000")
    case True
    then show ?thesis by (simp add: calculate_standard)
  next
    case False
    then show ?thesis using c by (simp add: calculate_computed)
  qed
  then show ?thesis
    using init_Inr by blast
qed

subsection \<open>C9: minimum shell thickness and knuckle radius\<close>








lemma standard_volume: "9.5 < pi * (1870 / 2000)\<^sup>2 * (3680 / 1000)"
proof -
  have "(9.5::real) < 3 * ((1870 / 2000)\<^sup>2 * (3680 / 1000))"
    by (simp add: power2_eq_square)
  also have "\<dots> \<le> pi * ((1870 / 2000)\<^sup>2 * (3680 / 1000))"
    by (rule mult_right_mono [OF pi_ge_three]) simp
  finally show ?thesis
    by (simp add: mult.assoc)
qed

subsection \<open>C10: the capacity verdict of the report\<close>

text \<open>
  C10. The report's verdict is PASS exactly when the cylinder volume of the chosen diameter
  and length differs from the requested capacity (in cubic metres) by less than 0.5; at the
  requested capacity 9000 L, which lies in the standard range, the verdict is FAIL.
\<close>

theorem capacity_match_verdict:
  "(\<forall>d. init c = Inr d \<longrightarrow>
      (capacity_match d = PASS) =
        (\<bar>pi * (tank_diameter (dims d) / 2000)\<^sup>2 * (tank_length (dims d) / 1000) - c / 1000\<bar>
           < 0.5)) \<and>
   (8000 \<le> (9000::real) \<and> (9000::real) \<le> 12000 \<and>
    (\<exists>d. init 9000 = Inr d \<and> capacity_match d = FAIL))"
proof (intro conjI allI impI)
  fix d
  assume "init c = Inr d"
  then have m: "capacity_m3 d = c / 1000"
    by (rule init_dims)
  show "(capacity_match d = PASS) =
      (\<bar>pi * (tank_diameter (dims d) / 2000)\<^sup>2 * (tank_length (dims d) / 1000) - c / 1000\<bar>
         < 0.5)"
    unfolding capacity_match_def calculated_volume_def m by simp
next
  have "calculate_optimal_dimensions 9000 material_properties design_pressure =
      Inr standard_dimensions"
    by (simp add: calculate_standard)
  then obtain comps where d: "init 9000 =
      Inr \<lparr> capacity_liters = 9000, capacity_m3 = 9000 / 1000, dims = standard_dimensions,
            components = comps \<rparr>"
    using init_Inr by blast
  have "capacity_match \<lparr> capacity_liters = 9000, capacity_m3 = 9000 / 1000,
      dims = standard_dimensions, components = comps \<rparr> = FAIL"
    using standard_volume
    by (simp add: capacity_match_def calculated_volume_def standard_dimensions_def)
  with d show "\<exists>d. init 9000 = Inr d \<and> capacity_match d = FAIL"
    by blast
qed simp_all

text \<open>The theorem at 9000 L, where construction succeeds.\<close>

theorem capacity_match_verdict_witness:
  "\<exists>d. init 9000 = Inr d \<and>
     ((capacity_match d = PASS) =
        (\<bar>pi * (tank_diameter (dims d) / 2000)\<^sup>2 * (tank_length (dims d) / 1000) - 9000 / 1000\<bar>
           < 0.5))"
proof -
  obtain d where "init 9000 = Inr d"
    using init_total [of 9000] by auto
  then show ?thesis
    using capacity_match_verdict [of 9000] by blast
qed






subsection \<open>C2: which dimensions are constants\<close>






section \<open>Properties of the request handlers\<close>

subsection \<open>The string methods\<close>

lemma str_split_not_Nil: "str_split sep s \<noteq> []"
  by (induction s) (auto split: list.splits)

lemma str_split_no_sep: "sep \<notin> set s \<Longrightarrow> str_split sep s = [s]"
  by (induction s) auto

lemma str_split_sep: "sep \<in> set s \<Longrightarrow> tl (str_split sep s) \<noteq> []"
  by (induction s) (auto simp: str_split_not_Nil split: list.splits)

lemma last_str_split:
  "last (str_split sep s) = rev (takeWhile (\<lambda>c. c \<noteq> sep) (rev s))"
proof (induction s)
  case Nil
  then show ?case by simp
next
  case (Cons c cs)
  show ?case
  proof (cases "c = sep")
    case True
    then show ?thesis
      using Cons by (simp add: str_split_not_Nil takeWhile_append)
  next
    case False
    show ?thesis
    proof (cases "sep \<in> set cs")
      case True
      then have "tl (str_split sep cs) \<noteq> []"
        by (rule str_split_sep)
      then show ?thesis
        using Cons False True by (auto simp: takeWhile_append split: list.splits)
    next
      case no: False
      then show ?thesis
        using False by (simp add: str_split_no_sep takeWhile_append)
    qed
  qed
qed

lemma str_replace_char:
  "str_replace [a] [b] s = map (\<lambda>c. if c = a then b else c) s"
proof (induction s)
  case Nil
  then show ?case by (simp add: str_replace.simps)
next
  case (Cons c cs)
  then show ?case
    by (subst str_replace.simps) auto
qed

lemma str_replace_extension:
  "CHR ''.'' \<notin> set s \<Longrightarrow> str_replace ''.md'' '''' (s @ ''.md'') = s"
proof (induction s)
  case Nil
  show ?case
    by code_simp
next
  case (Cons c cs)
  then show ?case
    by (subst str_replace.simps) auto
qed

subsection \<open>C3: the routes of \<open>do_GET\<close>\<close>

lemma dashboard_status: "response_status (serve_main_dashboard h) = Some 200"
  by (simp add: serve_main_dashboard_def)

text \<open>
  C3. With \<open>path\<close> the path component of the request: if it is \<open>/\<close> or \<open>/index.html\<close> the
  handler answers with status 200 and the dashboard page; if it starts with \<open>/document/\<close>
  the handler serves the document named by what follows the last \<open>/\<close> of the path; for
  every other path the request goes to the static-file handler of the framework.
\<close>

theorem do_GET_routes:
  "(urlparse_path env p = ''/'' \<or> urlparse_path env p = ''/index.html'' \<longrightarrow>
      do_GET h env p =
        [SendResponse 200, SendHeader ''Content-type'' ''text/html; charset=utf-8'']
        @ cors_headers h @ [EndHeaders, WfileWrite (Dashboard h)] \<and>
      response_status (do_GET h env p) = Some 200) \<and>
   (startswith (urlparse_path env p) ''/document/'' \<longrightarrow>
      do_GET h env p = serve_document h env (last_segment (urlparse_path env p))) \<and>
   (urlparse_path env p \<noteq> ''/'' \<and> urlparse_path env p \<noteq> ''/index.html'' \<and>
    \<not> startswith (urlparse_path env p) ''/document/'' \<longrightarrow>
      do_GET h env p = [SuperDoGET])"
proof (intro conjI impI)
  assume "urlparse_path env p = ''/'' \<or> urlparse_path env p = ''/index.html''"
  then have d: "do_GET h env p = serve_main_dashboard h"
    by (auto simp: do_GET_def)
  show "do_GET h env p =
        [SendResponse 200, SendHeader ''Content-type'' ''text/html; charset=utf-8'']
        @ cors_headers h @ [EndHeaders, WfileWrite (Dashboard h)]"
    unfolding d by (simp add: serve_main_dashboard_def)
  show "response_status (do_GET h env p) = Some 200"
    unfolding d by (rule dashboard_status)
next
  assume s: "startswith (urlparse_path env p) ''/document/''"
  then have "urlparse_path env p \<noteq> ''/''" and "urlparse_path env p \<noteq> ''/index.html''"
    by (auto simp: startswith_def)
  with s show "do_GET h env p = serve_document h env (last_segment (urlparse_path env p))"
    by (simp add: do_GET_def last_segment_def last_str_split)
next
  assume "urlparse_path env p \<noteq> ''/'' \<and> urlparse_path env p \<noteq> ''/index.html'' \<and>
    \<not> startswith (urlparse_path env p) ''/document/''"
  then show "do_GET h env p = [SuperDoGET]"
    by (simp add: do_GET_def)
qed


lemma example_paths:
  "urlparse_path example_env ''/index.html?print=1'' = ''/index.html''"
  "urlparse_path example_env ''/document/Tank_Report.md'' = ''/document/Tank_Report.md''"
  "urlparse_path example_env ''/Tank.stp'' = ''/Tank.stp''"
  by (simp_all add: example_env_def)

lemma example_segment: "last_segment ''/document/Tank_Report.md'' = ''Tank_Report.md''"
  by (simp add: last_segment_def)

text \<open>The three routes on the example environment.\<close>

theorem do_GET_routes_witness:
  "do_GET DocumentationHandler example_env ''/index.html?print=1'' =
     [SendResponse 200, SendHeader ''Content-type'' ''text/html; charset=utf-8'', EndHeaders,
      WfileWrite (Dashboard DocumentationHandler)] \<and>
   do_GET DocumentationHandler example_env ''/document/Tank_Report.md'' =
     serve_document DocumentationHandler example_env ''Tank_Report.md'' \<and>
   do_GET DocumentationHandler example_env ''/Tank.stp'' = [SuperDoGET]"
  using do_GET_routes [of example_env "''/index.html?print=1''" DocumentationHandler]
    do_GET_routes [of example_env "''/document/Tank_Report.md''" DocumentationHandler]
    do_GET_routes [of example_env "''/Tank.stp''" DocumentationHandler]
  by (simp add: example_paths example_segment startswith_def cors_headers_def)

subsection \<open>The calls of the \<open>try\<close> block\<close>

lemma respond_returns: "(\<And>c. raises c = None) \<Longrightarrow> respond raises calls = (calls, None)"
  by (induction calls) simp_all


lemma respond_first:
  "\<exists>rest. fst (respond raises (c # calls)) = c # rest"
  by (auto split: option.splits prod.splits)



lemma sent_errors_page:
  "sent_errors
     ([SendResponse 200, SendHeader ''Content-type'' ''text/html; charset=utf-8'']
      @ cors_headers h @ [EndHeaders, WfileWrite p]) = []"
  by (cases h) (simp_all add: cors_headers_def)

lemma serve_document_cases:
  "serve_document h env filename =
     (if \<not> path_exists env filename then [SendError 404 (not_found_message h filename)]
      else case read_text env filename of
        Inl e \<Rightarrow> if is_Exception e then [SendError 500 (error_message h e)] else [Propagates e]
      | Inr content \<Rightarrow>
          (case html_of h env filename content of
             Inl e \<Rightarrow>
               if is_Exception e then [SendError 500 (error_message h e)] else [Propagates e]
           | Inr html_content \<Rightarrow>
               (case respond (response_raises env)
                      ([SendResponse 200,
                        SendHeader ''Content-type'' ''text/html; charset=utf-8'']
                       @ cors_headers h
                       @ [EndHeaders,
                          WfileWrite (StyledPage h
                            (str_replace ''.md'' '''' (str_replace ''_'' '' '' filename))
                            html_content)]) of
                  (made, None) \<Rightarrow> made
                | (made, Some e) \<Rightarrow>
                    if is_Exception e then made @ [SendError 500 (error_message h e)]
                    else made @ [Propagates e])))"
  by (simp add: serve_document_def try_block_def split: sum.splits)

lemma served_status:
  assumes "path_exists env filename" and "read_text env filename = Inr content"
    and "html_of h env filename content = Inr html"
  shows "response_status (serve_document h env filename) = Some 200"
proof -
  obtain rest where "fst (respond (response_raises env)
      (SendResponse 200
       # SendHeader ''Content-type'' ''text/html; charset=utf-8''
       # cors_headers h
       @ [EndHeaders,
          WfileWrite (StyledPage h
            (str_replace ''.md'' '''' (str_replace ''_'' '' '' filename)) html)])) =
      SendResponse 200 # rest"
    using respond_first by blast
  then show ?thesis
    using assms by (auto simp: serve_document_cases split: prod.splits option.splits)
qed

lemma served_calls:
  assumes "path_exists env filename" and "read_text env filename = Inr content"
    and "html_of h env filename content = Inr html"
    and "\<And>c. response_raises env c = None"
  shows "serve_document h env filename =
           [SendResponse 200, SendHeader ''Content-type'' ''text/html; charset=utf-8'']
           @ cors_headers h
           @ [EndHeaders,
              WfileWrite (StyledPage h
                (str_replace ''.md'' '''' (str_replace ''_'' '' '' filename)) html)]"
  using assms(1-3) by (simp add: serve_document_cases respond_returns [OF assms(4)])

subsection \<open>C4: the page of a served document\<close>

text \<open>
  C4. For an existing file whose content is read: if the name ends with \<open>.md\<close> and the
  markdown library converts the content, the converted HTML is embedded in the styled page,
  and otherwise the raw content is embedded between \<open><pre>\<close> and \<open></pre>\<close>; in both cases
  the response has status 200 and the header \<open>Content-type: text/html; charset=utf-8\<close>, and
  the title is the file name with every \<open>_\<close> replaced by a space and \<open>.md\<close> removed. The
  status is 200 whatever the response calls do; the page is written in full when every
  response call returns.
\<close>

theorem serve_document_page:
  assumes "path_exists env filename" and "read_text env filename = Inr content"
  shows
  "(endswith filename ''.md'' \<and> markdown_convert env (extensions h) content = Inr html \<longrightarrow>
      ((\<forall>c. response_raises env c = None) \<longrightarrow>
       serve_document h env filename =
         [SendResponse 200, SendHeader ''Content-type'' ''text/html; charset=utf-8'']
         @ cors_headers h
         @ [EndHeaders,
            WfileWrite (StyledPage h
              (str_replace ''.md'' '''' (str_replace ''_'' '' '' filename)) html)]) \<and>
      response_status (serve_document h env filename) = Some 200) \<and>
   (\<not> endswith filename ''.md'' \<longrightarrow>
      ((\<forall>c. response_raises env c = None) \<longrightarrow>
       serve_document h env filename =
         [SendResponse 200, SendHeader ''Content-type'' ''text/html; charset=utf-8'']
         @ cors_headers h
         @ [EndHeaders,
            WfileWrite (StyledPage h
              (str_replace ''.md'' '''' (str_replace ''_'' '' '' filename))
              (''<pre>'' @ content @ ''</pre>''))]) \<and>
      response_status (serve_document h env filename) = Some 200) \<and>
   str_replace ''_'' '' '' filename =
     map (\<lambda>c. if c = CHR ''_'' then CHR '' '' else c) filename"
proof (intro conjI impI)
  assume md: "endswith filename ''.md'' \<and> markdown_convert env (extensions h) content = Inr html"
  then have h: "html_of h env filename content = Inr html"
    by (simp add: html_of_def)
  show "response_status (serve_document h env filename) = Some 200"
    by (rule served_status [OF assms h])
  assume "\<forall>c. response_raises env c = None"
  then show "serve_document h env filename =
         [SendResponse 200, SendHeader ''Content-type'' ''text/html; charset=utf-8'']
         @ cors_headers h
         @ [EndHeaders,
            WfileWrite (StyledPage h
              (str_replace ''.md'' '''' (str_replace ''_'' '' '' filename)) html)]"
    using served_calls [OF assms h] by blast
next
  assume "\<not> endswith filename ''.md''"
  then have h: "html_of h env filename content = Inr (''<pre>'' @ content @ ''</pre>'')"
    by (simp add: html_of_def)
  show "response_status (serve_document h env filename) = Some 200"
    by (rule served_status [OF assms h])
  assume "\<forall>c. response_raises env c = None"
  then show "serve_document h env filename =
         [SendResponse 200, SendHeader ''Content-type'' ''text/html; charset=utf-8'']
         @ cors_headers h
         @ [EndHeaders,
            WfileWrite (StyledPage h
              (str_replace ''.md'' '''' (str_replace ''_'' '' '' filename))
              (''<pre>'' @ content @ ''</pre>''))]"
    using served_calls [OF assms h] by blast
next
  show "str_replace ''_'' '' '' filename =
     map (\<lambda>c. if c = CHR ''_'' then CHR '' '' else c) filename"
    by (rule str_replace_char)
qed

lemma example_suffix:
  "endswith ''Tank_Report.md'' ''.md''" "endswith ''bad.md'' ''.md''"
  "\<not> endswith ''notes.txt'' ''.md''"
  by (simp_all add: endswith_def suffix_to_prefix)

lemma example_title:
  "str_replace ''.md'' '''' (str_replace ''_'' '' '' ''Tank_Report.md'') = ''Tank Report''"
  "str_replace ''.md'' '''' (str_replace ''_'' '' '' ''notes.txt'') = ''notes.txt''"
  by code_simp+

text \<open>A markdown file and a text file of the example environment.\<close>

theorem serve_document_page_witness:
  "serve_document DocumentationHandler example_env ''Tank_Report.md'' =
     [SendResponse 200, SendHeader ''Content-type'' ''text/html; charset=utf-8'', EndHeaders,
      WfileWrite (StyledPage DocumentationHandler ''Tank Report'' ''<h1>Tank</h1>'')] \<and>
   serve_document DocumentationHandler example_env ''notes.txt'' =
     [SendResponse 200, SendHeader ''Content-type'' ''text/html; charset=utf-8'', EndHeaders,
      WfileWrite (StyledPage DocumentationHandler ''notes.txt'' ''<pre>plain</pre>'')] \<and>
   response_status (serve_document DocumentationHandler broken_pipe_env ''Tank_Report.md'') =
     Some 200"
proof (intro conjI)
  have returns: "\<forall>c. response_raises example_env c = None"
    by (simp add: example_env_def)
  have report: "path_exists example_env ''Tank_Report.md''"
    "read_text example_env ''Tank_Report.md'' = Inr ''# Tank''"
    "markdown_convert example_env (extensions DocumentationHandler) ''# Tank'' =
       Inr ''<h1>Tank</h1>''"
    by (simp_all add: example_env_def)
  have plain: "path_exists example_env ''notes.txt''"
    "read_text example_env ''notes.txt'' = Inr ''plain''"
    by (simp_all add: example_env_def)
  have broken: "path_exists broken_pipe_env ''Tank_Report.md''"
    "read_text broken_pipe_env ''Tank_Report.md'' = Inr ''# Tank''"
    "markdown_convert broken_pipe_env (extensions DocumentationHandler) ''# Tank'' =
       Inr ''<h1>Tank</h1>''"
    by (simp_all add: broken_pipe_env_def example_env_def)
  from serve_document_page [OF report(1,2), of DocumentationHandler "''<h1>Tank</h1>''"]
    example_suffix(1) report(3) returns
  have "serve_document DocumentationHandler example_env ''Tank_Report.md'' =
      [SendResponse 200, SendHeader ''Content-type'' ''text/html; charset=utf-8'']
      @ cors_headers DocumentationHandler
      @ [EndHeaders,
         WfileWrite (StyledPage DocumentationHandler
           (str_replace ''.md'' '''' (str_replace ''_'' '' '' ''Tank_Report.md''))
           ''<h1>Tank</h1>'')]"
    by blast
  then show "serve_document DocumentationHandler example_env ''Tank_Report.md'' =
     [SendResponse 200, SendHeader ''Content-type'' ''text/html; charset=utf-8'', EndHeaders,
      WfileWrite (StyledPage DocumentationHandler ''Tank Report'' ''<h1>Tank</h1>'')]"
    by (simp only: example_title) (simp add: cors_headers_def)
  from serve_document_page [OF plain, of DocumentationHandler] example_suffix(3) returns
  have "serve_document DocumentationHandler example_env ''notes.txt'' =
      [SendResponse 200, SendHeader ''Content-type'' ''text/html; charset=utf-8'']
      @ cors_headers DocumentationHandler
      @ [EndHeaders,
         WfileWrite (StyledPage DocumentationHandler
           (str_replace ''.md'' '''' (str_replace ''_'' '' '' ''notes.txt''))
           (''<pre>'' @ ''plain'' @ ''</pre>''))]"
    by blast
  then show "serve_document DocumentationHandler example_env ''notes.txt'' =
     [SendResponse 200, SendHeader ''Content-type'' ''text/html; charset=utf-8'', EndHeaders,
      WfileWrite (StyledPage DocumentationHandler ''notes.txt'' ''<pre>plain</pre>'')]"
    by (simp only: example_title) (simp add: cors_headers_def)
  from serve_document_page [OF broken(1,2), of DocumentationHandler "''<h1>Tank</h1>''"]
    example_suffix(1) broken(3)
  show "response_status (serve_document DocumentationHandler broken_pipe_env ''Tank_Report.md'') =
     Some 200"
    by blast
qed

subsection \<open>C8: the error responses of \<open>serve_document\<close>\<close>






section \<open>Properties of the generators and the servers\<close>

subsection \<open>C5: the fallbacks of \<open>export_step_file\<close>\<close>





subsection \<open>C6: the result of the PDF generator\<close>

lemma markdown_to_pdf_True:
  "markdown_to_pdf env f out t = Inr True \<longleftrightarrow> conversion_succeeds env f out t"
  by (auto simp: markdown_to_pdf_def conversion_def conversion_succeeds_def
      split: option.splits sum.splits)

lemma markdown_to_pdf_quiet:
  assumes "quiet env"
  shows "markdown_to_pdf env f out t = Inr (conversion_succeeds env f out t)"
proof (cases "conversion env f out t")
  case None
  then have "markdown_to_pdf env f out t = Inr True"
    by (simp add: markdown_to_pdf_def)
  then show ?thesis
    using markdown_to_pdf_True [of env f out t] by simp
next
  case (Some e)
  then have e: "is_Exception e"
    using assms unfolding quiet_def conversion_def
    by (auto split: option.splits sum.splits)
  have "print_raises env (ErrorConverting f e) = None"
  proof (cases "print_raises env (ErrorConverting f e)")
    case None
    then show ?thesis .
  next
    case (Some e')
    then show ?thesis
      using assms unfolding quiet_def by blast
  qed
  with Some e have "markdown_to_pdf env f out t = Inr False"
    by (simp add: markdown_to_pdf_def)
  moreover have "\<not> conversion_succeeds env f out t"
    using markdown_to_pdf_True [of env f out t] calculation by simp
  ultimately show ?thesis by simp
qed

lemma convert_all_bounds:
  assumes "convert_all env docs n = Inr m"
  shows "n \<le> m \<and> m \<le> n + length docs \<and>
     (m = n + length docs \<longleftrightarrow> (\<forall>doc \<in> set docs. converted env doc))"
  using assms
proof (induction docs arbitrary: n)
  case Nil
  then show ?case by simp
next
  case (Cons doc docs)
  obtain markdown_file pdf_filename title where doc: "doc = (markdown_file, pdf_filename, title)"
    by (cases doc) auto
  show ?case
  proof (cases "converted env doc")
    case True
    then have "convert_all env (doc # docs) n = convert_all env docs (n + 1)"
      unfolding doc by (simp add: converted_def markdown_to_pdf_True [symmetric])
    with Cons.prems have "convert_all env docs (n + 1) = Inr m"
      by simp
    from Cons.IH [OF this] True show ?thesis
      by auto
  next
    case False
    then have "\<not> (path_exists env markdown_file \<and>
        markdown_to_pdf env markdown_file (output_path pdf_filename) (Some title) = Inr True)"
      unfolding doc by (simp add: converted_def markdown_to_pdf_True)
    with Cons.prems have "convert_all env docs n = Inr m"
      unfolding doc by (auto split: sum.splits option.splits if_splits)
    from Cons.IH [OF this] False show ?thesis
      by auto
  qed
qed

lemma convert_all_converted:
  assumes "\<forall>doc \<in> set docs. converted env doc"
  shows "convert_all env docs n = Inr (n + length docs)"
  using assms
proof (induction docs arbitrary: n)
  case Nil
  then show ?case by simp
next
  case (Cons doc docs)
  obtain markdown_file pdf_filename title where doc: "doc = (markdown_file, pdf_filename, title)"
    by (cases doc) auto
  from Cons.prems have "converted env doc" by simp
  then have "convert_all env (doc # docs) n = convert_all env docs (n + 1)"
    unfolding doc by (simp add: converted_def markdown_to_pdf_True [symmetric])
  with Cons show ?case
    by simp
qed

lemma convert_all_quiet:
  assumes "quiet env"
  shows "\<exists>m. convert_all env docs n = Inr m"
proof (induction docs arbitrary: n)
  case Nil
  then show ?case by simp
next
  case (Cons doc docs)
  obtain markdown_file pdf_filename title where doc: "doc = (markdown_file, pdf_filename, title)"
    by (cases doc) auto
  have "print_raises env (FileNotFound markdown_file) = None"
  proof (cases "print_raises env (FileNotFound markdown_file)")
    case None
    then show ?thesis .
  next
    case (Some e')
    then show ?thesis
      using assms unfolding quiet_def by blast
  qed
  then show ?case
    unfolding doc using Cons [of n] Cons [of "n + 1"]
    by (simp add: markdown_to_pdf_quiet [OF assms])
qed

lemma length_documents: "length documents = 6"
  by (simp add: documents_def)

lemma pdf_main_True:
  "pdf_main env = Inr True \<longleftrightarrow>
     print_raises env Banner = None \<and> mkdir env pdf_dir = None \<and>
     (\<forall>doc \<in> set documents. converted env doc) \<and>
     print_raises env (Summary 6 6) = None \<and> print_raises env (CreatedIn pdf_dir) = None"
proof
  assume r: "pdf_main env = Inr True"
  then obtain m where m: "convert_all env documents 0 = Inr m"
    and prints: "print_raises env Banner = None" "mkdir env pdf_dir = None"
      "print_raises env (Summary m 6) = None" "print_raises env (CreatedIn pdf_dir) = None"
    and eq: "m = 6"
    by (auto simp: pdf_main_def Let_def length_documents split: option.splits sum.splits)
  from convert_all_bounds [OF m] eq have "\<forall>doc \<in> set documents. converted env doc"
    by (simp add: length_documents)
  with prints eq show "print_raises env Banner = None \<and> mkdir env pdf_dir = None \<and>
     (\<forall>doc \<in> set documents. converted env doc) \<and>
     print_raises env (Summary 6 6) = None \<and> print_raises env (CreatedIn pdf_dir) = None"
    by simp
next
  assume a: "print_raises env Banner = None \<and> mkdir env pdf_dir = None \<and>
     (\<forall>doc \<in> set documents. converted env doc) \<and>
     print_raises env (Summary 6 6) = None \<and> print_raises env (CreatedIn pdf_dir) = None"
  then have "convert_all env documents 0 = Inr 6"
    using convert_all_converted [of documents env 0] by (simp add: length_documents)
  with a show "pdf_main env = Inr True"
    by (simp add: pdf_main_def Let_def length_documents)
qed

lemma pdf_main_quiet:
  assumes "quiet env"
  shows "pdf_main env = Inr (\<forall>doc \<in> set documents. converted env doc)"
proof -
  obtain m where m: "convert_all env documents 0 = Inr m"
    using convert_all_quiet [OF assms] by blast
  have returns: "print_raises env p = None"
    if "\<And>f. p \<noteq> Converting f" and "\<And>f. p \<noteq> Success f" for p
  proof (cases "print_raises env p")
    case None
    then show ?thesis .
  next
    case (Some e)
    then show ?thesis
      using assms that unfolding quiet_def by blast
  qed
  have "mkdir env pdf_dir = None"
    using assms by (simp add: quiet_def)
  then have "pdf_main env = Inr (m = 6)"
    by (simp add: pdf_main_def Let_def m returns length_documents)
  moreover have "m = 6 \<longleftrightarrow> (\<forall>doc \<in> set documents. converted env doc)"
    using convert_all_bounds [OF m] by (simp add: length_documents)
  ultimately show ?thesis
    by simp
qed

lemma markdown_to_pdf_raise:
  assumes "conversion env f out t = Some e"
  shows "markdown_to_pdf env f out t =
           (if is_Exception e
            then case print_raises env (ErrorConverting f e) of
                   None \<Rightarrow> Inr False
                 | Some e' \<Rightarrow> Inl e'
            else Inl e)"
  using assms by (simp add: markdown_to_pdf_def)

text \<open>
  Against C6 as stated: a \<open>KeyboardInterrupt\<close> during the rendering leaves
  \<open>markdown_to_pdf\<close>.
\<close>

theorem markdown_to_pdf_interrupt_propagates:
  "markdown_to_pdf example_pdf_env_interrupted ''README.md'' ''README.pdf'' None =
     Inl KeyboardInterrupt"
  by (simp add: markdown_to_pdf_def conversion_def example_pdf_env_interrupted_def
      example_pdf_env_def)

text \<open>
  C6, amended. \<open>main\<close> returns \<open>True\<close> exactly when its own prints and \<open>mkdir\<close> return and
  each of the six listed markdown files exists and its conversion succeeds. In a quiet
  environment \<open>main\<close> returns, with \<open>False\<close> when a file is missing or a conversion raises.
  \<open>markdown_to_pdf\<close> returns \<open>True\<close> exactly when its conversion succeeds; when the import,
  the read, the markdown conversion or the rendering raises an instance of \<open>Exception\<close>
  it prints the error and returns \<open>False\<close>, unless that \<open>print\<close> raises; an exception
  outside \<open>Exception\<close> reaches the caller.
\<close>

theorem pdf_main_result:
  "(pdf_main env = Inr True \<longleftrightarrow>
      print_raises env Banner = None \<and> mkdir env pdf_dir = None \<and>
      (\<forall>doc \<in> set documents. converted env doc) \<and>
      print_raises env (Summary 6 6) = None \<and> print_raises env (CreatedIn pdf_dir) = None) \<and>
   (quiet env \<longrightarrow> pdf_main env = Inr (\<forall>doc \<in> set documents. converted env doc)) \<and>
   length documents = 6 \<and>
   (markdown_to_pdf env f out t = Inr True \<longleftrightarrow> conversion_succeeds env f out t) \<and>
   (import_libraries env = Some e \<or>
    import_libraries env = None \<and> print_raises env (Converting f) = None \<and>
      (read_text env f = Inl e \<or>
       (\<exists>content. read_text env f = Inr content \<and>
          (markdown_convert env [''extra'', ''codehilite'', ''toc''] content = Inl e \<or>
           (\<exists>html.
              markdown_convert env [''extra'', ''codehilite'', ''toc''] content = Inr html \<and>
              write_pdf env out (title_or_default t) html = Some e)))) \<longrightarrow>
      markdown_to_pdf env f out t =
        (if is_Exception e
         then case print_raises env (ErrorConverting f e) of
                None \<Rightarrow> Inr False
              | Some e' \<Rightarrow> Inl e'
         else Inl e))"
proof (intro conjI impI)
  show "pdf_main env = Inr True \<longleftrightarrow>
      print_raises env Banner = None \<and> mkdir env pdf_dir = None \<and>
      (\<forall>doc \<in> set documents. converted env doc) \<and>
      print_raises env (Summary 6 6) = None \<and> print_raises env (CreatedIn pdf_dir) = None"
    by (rule pdf_main_True)
  show "length documents = 6"
    by (rule length_documents)
  show "markdown_to_pdf env f out t = Inr True \<longleftrightarrow> conversion_succeeds env f out t"
    by (rule markdown_to_pdf_True)
next
  assume "quiet env"
  then show "pdf_main env = Inr (\<forall>doc \<in> set documents. converted env doc)"
    by (rule pdf_main_quiet)
next
  assume "import_libraries env = Some e \<or>
    import_libraries env = None \<and> print_raises env (Converting f) = None \<and>
      (read_text env f = Inl e \<or>
       (\<exists>content. read_text env f = Inr content \<and>
          (markdown_convert env [''extra'', ''codehilite'', ''toc''] content = Inl e \<or>
           (\<exists>html.
              markdown_convert env [''extra'', ''codehilite'', ''toc''] content = Inr html \<and>
              write_pdf env out (title_or_default t) html = Some e))))"
  then have "conversion env f out t = Some e"
    by (auto simp: conversion_def)
  then show "markdown_to_pdf env f out t =
        (if is_Exception e
         then case print_raises env (ErrorConverting f e) of
                None \<Rightarrow> Inr False
              | Some e' \<Rightarrow> Inl e'
         else Inl e)"
    by (rule markdown_to_pdf_raise)
qed

lemma example_converted: "\<forall>doc \<in> set documents. converted example_pdf_env doc"
  by (simp add: documents_def converted_def conversion_succeeds_def example_pdf_env_def)

lemma example_quiet:
  "quiet example_pdf_env_missing" "quiet example_pdf_env_failing"
  by (simp_all add: quiet_def example_pdf_env_missing_def example_pdf_env_failing_def
      example_pdf_env_def)

lemma example_not_converted:
  "\<not> converted example_pdf_env_missing
       (''README.md'', ''SolidWorks_API_Collection_Overview.pdf'',
        ''SolidWorks API Collection Overview'')"
  "\<not> converted example_pdf_env_failing
       (''README.md'', ''SolidWorks_API_Collection_Overview.pdf'',
        ''SolidWorks API Collection Overview'')"
  by (simp_all add: converted_def conversion_succeeds_def example_pdf_env_missing_def
      example_pdf_env_failing_def example_pdf_env_def title_or_default_def)

text \<open>
  An environment where all six conversions succeed, one where a file is missing and one
  where a rendering raises.
\<close>

theorem pdf_main_result_witness:
  "pdf_main example_pdf_env = Inr True \<and> pdf_main example_pdf_env_missing = Inr False \<and>
   pdf_main example_pdf_env_failing = Inr False"
proof (intro conjI)
  have "print_raises example_pdf_env Banner = None" "mkdir example_pdf_env pdf_dir = None"
    "print_raises example_pdf_env (Summary 6 6) = None"
    "print_raises example_pdf_env (CreatedIn pdf_dir) = None"
    by (simp_all add: example_pdf_env_def)
  with example_converted pdf_main_result [of example_pdf_env, THEN conjunct1]
  show "pdf_main example_pdf_env = Inr True"
    by simp
  have readme: "(''README.md'', ''SolidWorks_API_Collection_Overview.pdf'',
        ''SolidWorks API Collection Overview'') \<in> set documents"
    by (simp add: documents_def)
  have "\<not> (\<forall>doc \<in> set documents. converted example_pdf_env_missing doc)"
    using readme example_not_converted(1) by blast
  with pdf_main_result [of example_pdf_env_missing, THEN conjunct2, THEN conjunct1]
    example_quiet(1)
  show "pdf_main example_pdf_env_missing = Inr False"
    by simp
  have "\<not> (\<forall>doc \<in> set documents. converted example_pdf_env_failing doc)"
    using readme example_not_converted(2) by blast
  with pdf_main_result [of example_pdf_env_failing, THEN conjunct2, THEN conjunct1]
    example_quiet(2)
  show "pdf_main example_pdf_env_failing = Inr False"
    by simp
qed

subsection \<open>C7: the threads of the servers\<close>

lemma started_threads_append:
  "started_threads (xs @ ys) = started_threads xs @ started_threads ys"
  by (induction xs rule: started_threads.induct) simp_all

lemma started_threads_serve:
  "started_threads (fst (serve env before)) = started_threads before"
  by (simp add: serve_def started_threads_append)

text \<open>
  Against C7 as stated: \<open>start_server\<close> of documentation\_server.py creates and starts a
  thread of its own, a daemon that sleeps two seconds and opens the browser.
\<close>

theorem start_server_starts_thread:
  "ThreadStart True [Sleep 2, WebbrowserOpen ''http://localhost:8080'']
     \<in> set (fst (start_server example_server_env))"
  by (simp add: start_server_def serve_def example_server_env_def)

text \<open>
  C7, amended. \<open>main\<close> of main.py starts no thread. \<open>start_server\<close> starts exactly one
  thread, once the socket is bound: a daemon whose target sleeps two seconds and opens the
  browser, and which starts no thread itself.
\<close>

theorem threads_of_servers:
  "started_threads (fst (server_main env)) = [] \<and>
   started_threads (fst (start_server env)) =
     (if bind env '''' 8080 = None
      then [(True, [Sleep 2, WebbrowserOpen ''http://localhost:8080''])] else []) \<and>
   started_threads [Sleep 2, WebbrowserOpen ''http://localhost:8080''] = []"
  by (auto simp: server_main_def start_server_def started_threads_serve
      split: sum.splits option.splits)

end
